theory Spec2Isabelle
  imports Main
begin

section \<open>The platform: exceptions, requests, responses\<close>

text \<open>
  The two components of the application (the authentication provider and the channel
  dashboard) are React function components. Their state hooks become the fields of a
  record, their event handlers and asynchronous functions become functions that take the
  state and return the new one. What the handlers do to the outside world (requests sent
  with \<^verbatim>\<open>fetch\<close>, lines written with \<^verbatim>\<open>console.error\<close>, routes pushed on the
  router) is appended to three logs kept beside the state, so that "no network call" and
  "navigation occurs" are statements about the result.

  A JavaScript exception is a value of \<open>exn\<close>; a call that may throw, or a promise that
  may reject, returns \<open>exn + 'a\<close> with \<open>Inl\<close> for the exception.
\<close>

datatype exn =
    Error string
  | TypeError string
  | URIError string
  | SyntaxError string

record channel =
  channelId :: string
  name :: string
  thumbnail :: string
  navigationEndpoint :: string

text \<open>
  The second argument of \<^verbatim>\<open>fetch\<close>: \<open>http_method\<close> is its \<^verbatim>\<open>method\<close>
  field, \<open>None\<close> where the source leaves it out.
\<close>

record request =
  url :: string
  http_method :: "string option"
  credentials :: string

text \<open>
  A response carries its HTTP status and what \<^verbatim>\<open>response.json()\<close> settles to: the
  decoded channels, or the exception of a body that is not JSON. \<^verbatim>\<open>response.ok\<close> is
  the platform's test for a status between 200 and 299.
\<close>

record response =
  status :: nat
  json :: "exn + channel list"

definition ok :: "response \<Rightarrow> bool" where
  "ok r = (200 \<le> status r \<and> status r \<le> 299)"

text \<open>
  The platform functions the source calls and does not define are parameters of the
  model: \<open>encodeURIComponent\<close> may throw (it does so on a lone surrogate), \<open>fetch\<close>
  may reject (a transport failure) or resolve with a response of any status.
\<close>

record platform =
  encodeURIComponent :: "string \<Rightarrow> exn + string"
  fetch :: "request \<Rightarrow> exn + response"

record io =
  requests :: "request list"
  console :: "(string \<times> exn) list"
  pushed :: "string list"

section \<open>AuthProvider\<close>

record auth = io +
  isAuthenticated :: bool

text \<open>The state at mount: \<^verbatim>\<open>useState(false)\<close>, and nothing done yet.\<close>

definition AuthProvider_init :: auth where
  "AuthProvider_init =
     \<lparr>requests = [], console = [], pushed = [], isAuthenticated = False\<rparr>"

text \<open>
  An asynchronous function returns how its promise settles (\<open>Inr ()\<close> fulfilled,
  \<open>Inl e\<close> rejected with \<open>e\<close>) and the state it leaves.
\<close>

definition checkAuthStatus :: "platform \<Rightarrow> auth \<Rightarrow> (exn + unit) \<times> auth" where
  "checkAuthStatus p s =
     (let req = \<lparr>url = ''http://localhost:8000/authcheck'', http_method = Some ''GET'',
                 credentials = ''include''\<rparr>;
          s1 = s\<lparr>requests := requests s @ [req]\<rparr>
      in case fetch p req of
           Inr response \<Rightarrow>
             if ok response then (Inr (), s1\<lparr>isAuthenticated := True\<rparr>)
             else (Inr (), s1\<lparr>isAuthenticated := False\<rparr>)
         | Inl error \<Rightarrow>
             (Inr (), s1\<lparr>console := console s1 @ [(''Error checking auth status:'', error)],
                        isAuthenticated := False\<rparr>))"

text \<open>The effect with no dependencies runs once, after the first render.\<close>

definition AuthProvider_mount :: "platform \<Rightarrow> (exn + unit) \<times> auth" where
  "AuthProvider_mount p = checkAuthStatus p AuthProvider_init"

definition login :: "auth \<Rightarrow> auth" where
  "login s = s\<lparr>isAuthenticated := True, pushed := pushed s @ [''/dashboard'']\<rparr>"

definition logout :: "platform \<Rightarrow> auth \<Rightarrow> (exn + unit) \<times> auth" where
  "logout p s =
     (let req = \<lparr>url = ''/api/auth/logout'', http_method = Some ''POST'',
                 credentials = ''include''\<rparr>;
          s1 = s\<lparr>requests := requests s @ [req]\<rparr>
      in case fetch p req of
           Inr response \<Rightarrow>
             (Inr (), s1\<lparr>isAuthenticated := False, pushed := pushed s1 @ [''/'']\<rparr>)
         | Inl error \<Rightarrow>
             (Inr (), s1\<lparr>console := console s1 @ [(''Error during logout:'', error)]\<rparr>))"

section \<open>The dashboard\<close>

subsection \<open>useDebounce\<close>

text \<open>
  Time is counted in milliseconds. The hook keeps the debounced value, the dependencies
  \<open>(value, delay)\<close> its effect last ran with, and the timeout the effect has pending:
  the time it is due and the value its callback captured. There is never more than one,
  since the cleanup of an effect clears its timeout before the next effect sets one.
  \<open>emitted\<close> lists the arguments of the calls of \<^verbatim>\<open>setDebouncedValue\<close>, in order.
\<close>

record debounce =
  debouncedValue :: string
  deps :: "string \<times> nat"
  handler :: "(nat \<times> string) option"
  clock :: nat
  emitted :: "string list"

text \<open>First render at time \<open>now\<close>: \<^verbatim>\<open>useState(value)\<close>, then the effect.\<close>

definition useDebounce_mount :: "string \<Rightarrow> nat \<Rightarrow> nat \<Rightarrow> debounce" where
  "useDebounce_mount value delay now =
     \<lparr>debouncedValue = value, deps = (value, delay),
      handler = Some (now + delay, value), clock = now, emitted = []\<rparr>"

text \<open>
  A later render: with the dependencies unchanged nothing happens; otherwise the cleanup
  of the previous effect runs (\<^verbatim>\<open>clearTimeout(handler)\<close>), then the effect.
\<close>

definition useDebounce :: "string \<Rightarrow> nat \<Rightarrow> debounce \<Rightarrow> debounce" where
  "useDebounce value delay s =
     (if deps s = (value, delay) then s
      else let s1 = s\<lparr>handler := None\<rparr>
           in s1\<lparr>deps := (value, delay), handler := Some (clock s1 + delay, value)\<rparr>)"

text \<open>
  \<open>t\<close> milliseconds pass with no render: a timeout that has become due runs its
  callback, \<^verbatim>\<open>setDebouncedValue(value)\<close> with the value it captured. A timeout never
  runs before it is due; running it as soon as it is due is the case in which the most
  calls are made.
\<close>

definition elapse :: "nat \<Rightarrow> debounce \<Rightarrow> debounce" where
  "elapse t s =
     (let now = clock s + t
      in case handler s of
           Some (due, v) \<Rightarrow>
             if due \<le> now
             then s\<lparr>debouncedValue := v, handler := None, clock := now,
                    emitted := emitted s @ [v]\<rparr>
             else s\<lparr>clock := now\<rparr>
         | None \<Rightarrow> s\<lparr>clock := now\<rparr>)"

text \<open>
  A run of input changes: each \<open>(gap, v)\<close> lets \<open>gap\<close> milliseconds pass and then
  renders the hook with the value \<open>v\<close>.
\<close>

fun typing :: "nat \<Rightarrow> (nat \<times> string) list \<Rightarrow> debounce \<Rightarrow> debounce" where
  "typing delay [] s = s"
| "typing delay ((gap, v) # rest) s = typing delay rest (useDebounce v delay (elapse gap s))"

subsection \<open>YoutubeDashboard\<close>

record dashboard = io +
  searchQuery :: string
  searchResults :: "channel list"
  selectedChannels :: "channel list"
  listName :: string
  isDropdownOpen :: bool
  isLoading :: bool
  error :: "string option"

definition YoutubeDashboard_init :: dashboard where
  "YoutubeDashboard_init =
     \<lparr>requests = [], console = [], pushed = [],
      searchQuery = [], searchResults = [], selectedChannels = [], listName = [],
      isDropdownOpen = False, isLoading = False, error = None\<rparr>"

text \<open>
  The \<^verbatim>\<open>try\<close> block of \<open>fetchChannels\<close>: \<open>Inl e\<close> is the exception that leaves it.
  The request is logged when \<^verbatim>\<open>fetch\<close> is called, whatever comes back.
\<close>

definition fetchChannels_try :: "platform \<Rightarrow> string \<Rightarrow> dashboard \<Rightarrow> (exn + unit) \<times> dashboard" where
  "fetchChannels_try p query s =
     (case encodeURIComponent p query of
        Inl e \<Rightarrow> (Inl e, s)
      | Inr q \<Rightarrow>
          let req = \<lparr>url = ''http://localhost:8000/fetchChannels?q='' @ q, http_method = None,
                     credentials = ''include''\<rparr>;
              s1 = s\<lparr>requests := requests s @ [req]\<rparr>
          in (case fetch p req of
                Inl e \<Rightarrow> (Inl e, s1)
              | Inr response \<Rightarrow>
                  if \<not> ok response then (Inl (Error ''Failed to fetch channels''), s1)
                  else (case json response of
                          Inl e \<Rightarrow> (Inl e, s1)
                        | Inr data \<Rightarrow>
                            (Inr (), s1\<lparr>searchResults := data, isDropdownOpen := True\<rparr>))))"

text \<open>The \<^verbatim>\<open>catch\<close> block: it ends normally.\<close>

definition fetchChannels_catch :: "exn \<Rightarrow> dashboard \<Rightarrow> (exn + unit) \<times> dashboard" where
  "fetchChannels_catch err s =
     (Inr (), s\<lparr>console := console s @ [(''Error fetching channels:'', err)],
                error := Some ''Failed to fetch channels. Please try again.'',
                searchResults := []\<rparr>)"

text \<open>
  \<open>fetchChannels\<close>: the early return on an empty query, then
  \<^verbatim>\<open>try\<close>, \<^verbatim>\<open>catch\<close> and \<^verbatim>\<open>finally\<close>. The result of the \<^verbatim>\<open>catch\<close> block
  (or of the \<^verbatim>\<open>try\<close> block when nothing was thrown) is how the promise settles.
\<close>

definition fetchChannels :: "platform \<Rightarrow> string \<Rightarrow> dashboard \<Rightarrow> (exn + unit) \<times> dashboard" where
  "fetchChannels p query s =
     (if query = [] then (Inr (), s\<lparr>searchResults := [], isDropdownOpen := False\<rparr>)
      else
        let s1 = s\<lparr>isLoading := True, error := None\<rparr>;
            (r, s2) = fetchChannels_try p query s1;
            (r', s3) = (case r of Inl err \<Rightarrow> fetchChannels_catch err s2 | Inr u \<Rightarrow> (Inr u, s2))
        in (r', s3\<lparr>isLoading := False\<rparr>))"

definition handleSelectChannel :: "channel \<Rightarrow> dashboard \<Rightarrow> dashboard" where
  "handleSelectChannel channel s =
     s\<lparr>selectedChannels := selectedChannels s @ [channel],
       searchQuery := [],
       isDropdownOpen := False\<rparr>"

definition handleRemoveChannel :: "string \<Rightarrow> dashboard \<Rightarrow> dashboard" where
  "handleRemoveChannel cid s =
     s\<lparr>selectedChannels := filter (\<lambda>channel. channelId channel \<noteq> cid) (selectedChannels s)\<rparr>"

subsection \<open>Rendering\<close>

text \<open>
  \<^verbatim>\<open>s.replace(pat, rep)\<close> with a string pattern replaces the first occurrence of
  \<open>pat\<close> only. The replacement is taken literally, which is what JavaScript does with a
  replacement that has no dollar sign in it.
\<close>

fun string_replace :: "string \<Rightarrow> string \<Rightarrow> string \<Rightarrow> string" where
  "string_replace pat rep [] = (if pat = [] then rep else [])"
| "string_replace pat rep (c # cs) =
     (if take (length pat) (c # cs) = pat then rep @ drop (length pat) (c # cs)
      else c # string_replace pat rep cs)"

definition image_src :: "channel \<Rightarrow> string" where
  "image_src channel = string_replace ''//'' ''https://'' (thumbnail channel)"

text \<open>
  The dropdown: for each search result the \<open>src\<close> of its image and its name, and nothing
  unless the dropdown is open and there are results.
\<close>

definition dropdown :: "dashboard \<Rightarrow> (string \<times> string) list" where
  "dropdown s =
     (if isDropdownOpen s \<and> length (searchResults s) > 0
      then map (\<lambda>channel. (image_src channel, name channel)) (searchResults s)
      else [])"

section \<open>Named requests and example values\<close>

text \<open>The three requests the handlers send, named for the statements below.\<close>

definition authcheck_request :: request where
  "authcheck_request =
     \<lparr>url = ''http://localhost:8000/authcheck'', http_method = Some ''GET'',
      credentials = ''include''\<rparr>"

definition logout_request :: request where
  "logout_request =
     \<lparr>url = ''/api/auth/logout'', http_method = Some ''POST'', credentials = ''include''\<rparr>"

definition search_request :: "string \<Rightarrow> request" where
  "search_request q =
     \<lparr>url = ''http://localhost:8000/fetchChannels?q='' @ q, http_method = None,
      credentials = ''include''\<rparr>"

text \<open>
  A platform for the examples: every \<^verbatim>\<open>fetch\<close> settles to the given outcome, and the
  encoder returns its argument, which is what \<^verbatim>\<open>encodeURIComponent\<close> does on a query
  of letters only, as the example queries are.
\<close>

definition stub_platform :: "exn + response \<Rightarrow> platform" where
  "stub_platform outcome =
     \<lparr>encodeURIComponent = (\<lambda>s. Inr s), fetch = (\<lambda>req. outcome)\<rparr>"

definition transport_failure :: "exn + response" where
  "transport_failure = Inl (TypeError ''Failed to fetch'')"

definition channel_c1 :: channel where
  "channel_c1 =
     \<lparr>channelId = ''c1'', name = ''A'', thumbnail = ''//x/y.png'',
      navigationEndpoint = ''/c1''\<rparr>"

definition channel_c2 :: channel where
  "channel_c2 =
     \<lparr>channelId = ''c2'', name = ''B'', thumbnail = ''//x/z.png'',
      navigationEndpoint = ''/c2''\<rparr>"

section \<open>The authentication state\<close>

text \<open>
  C5. The authentication flag is false at mount. The one check made at startup sends the
  auth-check request and leaves the flag true exactly when the request comes back with a
  response whose status is OK; a response of any other status and a transport failure
  both leave it false. The check's promise is always fulfilled.
\<close>

theorem startup_auth_check:
  "isAuthenticated AuthProvider_init = False \<and>
   isAuthenticated (snd (AuthProvider_mount p)) =
     (\<exists>r. fetch p authcheck_request = Inr r \<and> ok r) \<and>
   requests (snd (AuthProvider_mount p)) = [authcheck_request] \<and>
   fst (AuthProvider_mount p) = Inr ()"
  by (simp add: AuthProvider_mount_def checkAuthStatus_def AuthProvider_init_def
      authcheck_request_def Let_def split: sum.splits)

text \<open>Status 200, status 401 and a transport failure.\<close>

theorem startup_auth_check_witness:
  "isAuthenticated (snd (AuthProvider_mount
      (stub_platform (Inr \<lparr>status = 200, json = Inr []\<rparr>)))) = True \<and>
   isAuthenticated (snd (AuthProvider_mount
      (stub_platform (Inr \<lparr>status = 401, json = Inr []\<rparr>)))) = False \<and>
   isAuthenticated (snd (AuthProvider_mount (stub_platform transport_failure))) = False"
  using startup_auth_check [of "stub_platform (Inr \<lparr>status = 200, json = Inr []\<rparr>)"]
    startup_auth_check [of "stub_platform (Inr \<lparr>status = 401, json = Inr []\<rparr>)"]
    startup_auth_check [of "stub_platform transport_failure"]
  by (simp add: stub_platform_def transport_failure_def ok_def)

text \<open>
  C1, as amended. \<open>logout\<close> always sends the logout request and its promise is always
  fulfilled. When the request comes back with a response, of whatever status, the flag
  is set to false and the landing route is pushed. When the request fails in transport,
  the exception is written to the console and nothing else happens: the flag and the
  route stay as they were.
\<close>

theorem logout_outcomes:
  "fst (logout p s) = Inr () \<and>
   requests (snd (logout p s)) = requests s @ [logout_request] \<and>
   (case fetch p logout_request of
      Inr response \<Rightarrow>
        isAuthenticated (snd (logout p s)) = False \<and>
        pushed (snd (logout p s)) = pushed s @ [''/''] \<and>
        console (snd (logout p s)) = console s
    | Inl e \<Rightarrow>
        isAuthenticated (snd (logout p s)) = isAuthenticated s \<and>
        pushed (snd (logout p s)) = pushed s \<and>
        console (snd (logout p s)) = console s @ [(''Error during logout:'', e)])"
  by (simp add: logout_def logout_request_def Let_def split: sum.splits)

text \<open>
  C1 as stated fails on a transport failure: a signed-in user whose logout request does
  not reach the server stays signed in, on the dashboard.
\<close>

theorem logout_transport_failure_counterexample:
  "isAuthenticated (snd (logout (stub_platform transport_failure)
      (login AuthProvider_init))) = True \<and>
   pushed (snd (logout (stub_platform transport_failure)
      (login AuthProvider_init))) = [''/dashboard''] \<and>
   console (snd (logout (stub_platform transport_failure)
      (login AuthProvider_init))) = [(''Error during logout:'', TypeError ''Failed to fetch'')]"
  by (simp add: logout_def login_def AuthProvider_init_def stub_platform_def
      transport_failure_def)

section \<open>The search\<close>

lemma fetchChannels_fulfils: "fst (fetchChannels p query s) = Inr ()"
  by (simp add: fetchChannels_def fetchChannels_try_def fetchChannels_catch_def Let_def
      split: sum.splits prod.splits)

text \<open>
  C3. On the empty query the search empties the result set and closes the dropdown, and
  sends no request.
\<close>

theorem search_empty_query:
  "searchResults (snd (fetchChannels p [] s)) = [] \<and>
   isDropdownOpen (snd (fetchChannels p [] s)) = False \<and>
   requests (snd (fetchChannels p [] s)) = requests s \<and>
   fst (fetchChannels p [] s) = Inr ()"
  by (simp add: fetchChannels_def)

text \<open>
  C10. On the empty query the result set and the dropdown flag are the only fields that
  can differ afterwards: the error message, the loading flag, the query, the selection,
  the list name and the three logs are those of the state before.
\<close>

theorem search_empty_query_frame:
  "snd (fetchChannels p [] s) =
     s\<lparr>searchResults := searchResults (snd (fetchChannels p [] s)),
       isDropdownOpen := isDropdownOpen (snd (fetchChannels p [] s))\<rparr> \<and>
   error (snd (fetchChannels p [] s)) = error s \<and>
   isLoading (snd (fetchChannels p [] s)) = isLoading s \<and>
   searchQuery (snd (fetchChannels p [] s)) = searchQuery s \<and>
   selectedChannels (snd (fetchChannels p [] s)) = selectedChannels s \<and>
   listName (snd (fetchChannels p [] s)) = listName s \<and>
   requests (snd (fetchChannels p [] s)) = requests s \<and>
   console (snd (fetchChannels p [] s)) = console s \<and>
   pushed (snd (fetchChannels p [] s)) = pushed s"
  by (simp add: fetchChannels_def)

text \<open>
  A search that failed with status 500 has set the error message; the search on the
  empty query that follows leaves it displayed.
\<close>

theorem search_empty_query_frame_witness:
  "error (snd (fetchChannels (stub_platform (Inr \<lparr>status = 500, json = Inr []\<rparr>)) ''abc''
      YoutubeDashboard_init)) = Some ''Failed to fetch channels. Please try again.'' \<and>
   error (snd (fetchChannels (stub_platform (Inr \<lparr>status = 500, json = Inr []\<rparr>)) []
      (snd (fetchChannels (stub_platform (Inr \<lparr>status = 500, json = Inr []\<rparr>)) ''abc''
         YoutubeDashboard_init)))) = Some ''Failed to fetch channels. Please try again.''"
  using search_empty_query_frame [of "stub_platform (Inr \<lparr>status = 500, json = Inr []\<rparr>)"
      "snd (fetchChannels (stub_platform (Inr \<lparr>status = 500, json = Inr []\<rparr>)) ''abc''
         YoutubeDashboard_init)"]
  by (simp add: fetchChannels_def fetchChannels_try_def fetchChannels_catch_def
      stub_platform_def YoutubeDashboard_init_def ok_def)

text \<open>
  C4. On a query that is not empty the search ends with the loading flag false and its
  promise fulfilled, whatever the platform does. When the request that was sent is
  rejected (a transport failure) or comes back with a status that is not OK, the error
  field holds the fixed message and the result set is empty.
\<close>

theorem search_failure:
  assumes "query \<noteq> []"
  shows "isLoading (snd (fetchChannels p query s)) = False \<and>
         fst (fetchChannels p query s) = Inr () \<and>
         (\<forall>q. encodeURIComponent p query = Inr q \<longrightarrow>
              ((\<exists>e. fetch p (search_request q) = Inl e) \<or>
               (\<exists>r. fetch p (search_request q) = Inr r \<and> \<not> ok r)) \<longrightarrow>
              error (snd (fetchChannels p query s)) =
                Some ''Failed to fetch channels. Please try again.'' \<and>
              searchResults (snd (fetchChannels p query s)) = [])"
  using assms
  by (auto simp add: fetchChannels_def fetchChannels_try_def fetchChannels_catch_def
      search_request_def Let_def split: sum.splits prod.splits)

text \<open>Status 500, after a search that had found a channel.\<close>

theorem search_failure_witness:
  "''abc'' \<noteq> [] \<and>
   \<not> ok \<lparr>status = 500, json = Inr []\<rparr> \<and>
   searchResults (snd (fetchChannels
      (stub_platform (Inr \<lparr>status = 200, json = Inr [channel_c1]\<rparr>)) ''ab''
      YoutubeDashboard_init)) = [channel_c1] \<and>
   error (snd (fetchChannels (stub_platform (Inr \<lparr>status = 500, json = Inr []\<rparr>)) ''abc''
      (snd (fetchChannels (stub_platform (Inr \<lparr>status = 200, json = Inr [channel_c1]\<rparr>)) ''ab''
         YoutubeDashboard_init)))) = Some ''Failed to fetch channels. Please try again.'' \<and>
   searchResults (snd (fetchChannels (stub_platform (Inr \<lparr>status = 500, json = Inr []\<rparr>)) ''abc''
      (snd (fetchChannels (stub_platform (Inr \<lparr>status = 200, json = Inr [channel_c1]\<rparr>)) ''ab''
         YoutubeDashboard_init)))) = [] \<and>
   isLoading (snd (fetchChannels (stub_platform (Inr \<lparr>status = 500, json = Inr []\<rparr>)) ''abc''
      (snd (fetchChannels (stub_platform (Inr \<lparr>status = 200, json = Inr [channel_c1]\<rparr>)) ''ab''
         YoutubeDashboard_init)))) = False"
proof -
  let ?p = "stub_platform (Inr \<lparr>status = 500, json = Inr []\<rparr>)"
  let ?s = "snd (fetchChannels (stub_platform (Inr \<lparr>status = 200, json = Inr [channel_c1]\<rparr>))
              ''ab'' YoutubeDashboard_init)"
  have q: "''abc'' \<noteq> []" by simp
  have nok: "\<not> ok \<lparr>status = 500, json = Inr []\<rparr>" by (simp add: ok_def)
  have enc: "encodeURIComponent ?p ''abc'' = Inr ''abc''" by (simp add: stub_platform_def)
  have resp: "fetch ?p (search_request ''abc'') = Inr \<lparr>status = 500, json = Inr []\<rparr>"
    by (simp add: stub_platform_def)
  have before: "searchResults ?s = [channel_c1]"
    by (simp add: fetchChannels_def fetchChannels_try_def stub_platform_def ok_def)
  from search_failure [OF q, of ?p ?s] enc resp nok
  have "error (snd (fetchChannels ?p ''abc'' ?s)) =
          Some ''Failed to fetch channels. Please try again.'' \<and>
        searchResults (snd (fetchChannels ?p ''abc'' ?s)) = [] \<and>
        isLoading (snd (fetchChannels ?p ''abc'' ?s)) = False"
    by blast
  with q nok before show ?thesis by blast
qed

text \<open>
  C2, as amended. A body that does not decode is handled like the other failures: on a
  query that is not empty, when the response has an OK status and
  \<^verbatim>\<open>response.json()\<close> rejects, the exception is caught and logged, the error field
  holds the fixed message, the result set is empty, the loading flag is false, and the
  promise of the search is fulfilled. The dropdown flag is left as it was.
\<close>

theorem decode_failure_caught:
  assumes "query \<noteq> []"
      and "encodeURIComponent p query = Inr q"
      and "fetch p (search_request q) = Inr response"
      and "ok response"
      and "json response = Inl e"
  shows "fetchChannels p query s =
           (Inr (), s\<lparr>requests := requests s @ [search_request q],
                      console := console s @ [(''Error fetching channels:'', e)],
                      error := Some ''Failed to fetch channels. Please try again.'',
                      searchResults := [],
                      isLoading := False\<rparr>)"
  using assms
  by (simp add: fetchChannels_def fetchChannels_try_def fetchChannels_catch_def
      search_request_def)

theorem decode_failure_caught_witness:
  "''abc'' \<noteq> [] \<and>
   ok \<lparr>status = 200, json = Inl (SyntaxError ''Unexpected token'')\<rparr> \<and>
   fst (fetchChannels
      (stub_platform (Inr \<lparr>status = 200, json = Inl (SyntaxError ''Unexpected token'')\<rparr>))
      ''abc'' YoutubeDashboard_init) = Inr () \<and>
   error (snd (fetchChannels
      (stub_platform (Inr \<lparr>status = 200, json = Inl (SyntaxError ''Unexpected token'')\<rparr>))
      ''abc'' YoutubeDashboard_init)) = Some ''Failed to fetch channels. Please try again.''"
  using decode_failure_caught [of "''abc''"
      "stub_platform (Inr \<lparr>status = 200, json = Inl (SyntaxError ''Unexpected token'')\<rparr>)"
      "''abc''" "\<lparr>status = 200, json = Inl (SyntaxError ''Unexpected token'')\<rparr>"
      "SyntaxError ''Unexpected token''" YoutubeDashboard_init]
  by (simp add: stub_platform_def ok_def)

text \<open>
  C2 as stated fails: with status 200 and a body that is not JSON the promise of the
  search is fulfilled, not rejected, and the error field holds the fixed message.
\<close>

theorem decode_failure_counterexample:
  "fetchChannels
      (stub_platform (Inr \<lparr>status = 200, json = Inl (SyntaxError ''Unexpected token'')\<rparr>))
      ''abc'' YoutubeDashboard_init =
     (Inr (), YoutubeDashboard_init
        \<lparr>requests := [search_request ''abc''],
         console := [(''Error fetching channels:'', SyntaxError ''Unexpected token'')],
         error := Some ''Failed to fetch channels. Please try again.''\<rparr>)"
  by (simp add: fetchChannels_def fetchChannels_try_def fetchChannels_catch_def
      stub_platform_def YoutubeDashboard_init_def search_request_def ok_def)

text \<open>
  C8. On a query that is not empty, when the request comes back with an OK status and
  the body decodes to the one channel \<open>c1\<close>, the result set is that one-element list and
  the dropdown is open; the dropdown then shows one entry, whose image source is
  \<^verbatim>\<open>https://x/y.png\<close>.
\<close>

theorem search_success_c1:
  assumes "query \<noteq> []"
      and "encodeURIComponent p query = Inr q"
      and "fetch p (search_request q) = Inr response"
      and "ok response"
      and "json response = Inr [channel_c1]"
  shows "searchResults (snd (fetchChannels p query s)) = [channel_c1] \<and>
         isDropdownOpen (snd (fetchChannels p query s)) = True \<and>
         dropdown (snd (fetchChannels p query s)) = [(''https://x/y.png'', ''A'')] \<and>
         image_src channel_c1 = ''https://x/y.png''"
  using assms
  by (simp add: fetchChannels_def fetchChannels_try_def search_request_def dropdown_def
      image_src_def channel_c1_def)

theorem search_success_c1_witness:
  "''abc'' \<noteq> [] \<and>
   ok \<lparr>status = 200, json = Inr [channel_c1]\<rparr> \<and>
   searchResults (snd (fetchChannels
      (stub_platform (Inr \<lparr>status = 200, json = Inr [channel_c1]\<rparr>)) ''abc''
      YoutubeDashboard_init)) = [channel_c1] \<and>
   dropdown (snd (fetchChannels
      (stub_platform (Inr \<lparr>status = 200, json = Inr [channel_c1]\<rparr>)) ''abc''
      YoutubeDashboard_init)) = [(''https://x/y.png'', ''A'')]"
  using search_success_c1 [of "''abc''"
      "stub_platform (Inr \<lparr>status = 200, json = Inr [channel_c1]\<rparr>)" "''abc''"
      "\<lparr>status = 200, json = Inr [channel_c1]\<rparr>" YoutubeDashboard_init]
  by (simp add: stub_platform_def ok_def)

section \<open>The selection list\<close>

text \<open>
  C6. Selecting a channel puts it at the end of the selection list, whatever the list
  holds, empties the query and closes the dropdown; selecting the same channel twice
  leaves two entries for it at the end.
\<close>

theorem select_channel_appends:
  "selectedChannels (handleSelectChannel channel s) = selectedChannels s @ [channel] \<and>
   searchQuery (handleSelectChannel channel s) = [] \<and>
   isDropdownOpen (handleSelectChannel channel s) = False \<and>
   selectedChannels (handleSelectChannel channel (handleSelectChannel channel s)) =
     selectedChannels s @ [channel, channel]"
  by (simp add: handleSelectChannel_def)

text \<open>
  C7. Removing a channel id leaves the entries with another id, in their order, and no
  entry with that id. Removing the same id a second time changes nothing, and removing
  an id the list does not hold changes nothing.
\<close>

theorem remove_channel_filters:
  "selectedChannels (handleRemoveChannel cid s) =
     [channel \<leftarrow> selectedChannels s. channelId channel \<noteq> cid] \<and>
   cid \<notin> channelId ` set (selectedChannels (handleRemoveChannel cid s)) \<and>
   handleRemoveChannel cid (handleRemoveChannel cid s) = handleRemoveChannel cid s \<and>
   (cid \<notin> channelId ` set (selectedChannels s) \<longrightarrow> handleRemoveChannel cid s = s)"
proof -
  have absent: "[channel \<leftarrow> xs. channelId channel \<noteq> cid] = xs"
    if "cid \<notin> channelId ` set xs" for xs :: "channel list"
    using that by (induction xs) auto
  show ?thesis
    by (auto simp add: handleRemoveChannel_def absent)
qed

text \<open>A list of \<open>c1\<close> and \<open>c2\<close>: removing \<open>c1\<close> leaves \<open>c2\<close>, and so does removing it again.\<close>

theorem remove_channel_filters_witness:
  "selectedChannels (handleRemoveChannel ''c1''
      (YoutubeDashboard_init\<lparr>selectedChannels := [channel_c1, channel_c2]\<rparr>)) = [channel_c2] \<and>
   ''c1'' \<notin> channelId ` set [channel_c2] \<and>
   handleRemoveChannel ''c1'' (handleRemoveChannel ''c1''
      (YoutubeDashboard_init\<lparr>selectedChannels := [channel_c1, channel_c2]\<rparr>)) =
     YoutubeDashboard_init\<lparr>selectedChannels := [channel_c2]\<rparr>"
  using remove_channel_filters [of "''c1''"
      "YoutubeDashboard_init\<lparr>selectedChannels := [channel_c1, channel_c2]\<rparr>"]
    remove_channel_filters [of "''c1''"
      "YoutubeDashboard_init\<lparr>selectedChannels := [channel_c2]\<rparr>"]
  by (simp add: channel_c1_def channel_c2_def handleRemoveChannel_def)

section \<open>The debounce\<close>

lemma elapse_pending:
  assumes "handler s = Some (clock s + delay, v)" and "t < delay"
  shows "elapse t s = s\<lparr>clock := clock s + t\<rparr>"
  using assms by (simp add: elapse_def Let_def)

lemma elapse_due:
  assumes "handler s = Some (clock s + delay, v)" and "delay \<le> t"
  shows "elapse t s = s\<lparr>debouncedValue := v, handler := None, clock := clock s + t,
                         emitted := emitted s @ [v]\<rparr>"
  using assms by (simp add: elapse_def Let_def)

lemma useDebounce_change:
  assumes "deps s \<noteq> (v, delay)"
  shows "handler (useDebounce v delay s) = Some (clock (useDebounce v delay s) + delay, v)"
    and "deps (useDebounce v delay s) = (v, delay)"
    and "emitted (useDebounce v delay s) = emitted s"
    and "debouncedValue (useDebounce v delay s) = debouncedValue s"
  using assms by (simp_all add: useDebounce_def)

text \<open>
  While every change comes less than \<open>delay\<close> after the one before, the timeout of the
  latest value stays pending and nothing reaches the debounced value.
\<close>

lemma typing_pending:
  assumes "handler s = Some (clock s + delay, v)"
      and "deps s = (v, delay)"
      and "\<forall>(gap, x) \<in> set rest. gap < delay"
      and "distinct_adj (v # map snd rest)"
  shows "handler (typing delay rest s) =
           Some (clock (typing delay rest s) + delay, last (v # map snd rest)) \<and>
         deps (typing delay rest s) = (last (v # map snd rest), delay) \<and>
         emitted (typing delay rest s) = emitted s \<and>
         debouncedValue (typing delay rest s) = debouncedValue s"
  using assms
proof (induction rest arbitrary: s v)
  case Nil
  then show ?case by simp
next
  case (Cons a rest)
  obtain gap x where a: "a = (gap, x)" by (cases a)
  from Cons.prems a have gap: "gap < delay" and neq: "v \<noteq> x"
    and rest: "\<forall>(gap, x) \<in> set rest. gap < delay" "distinct_adj (x # map snd rest)"
    by auto
  let ?s1 = "useDebounce x delay (elapse gap s)"
  have e: "elapse gap s = s\<lparr>clock := clock s + gap\<rparr>"
    using Cons.prems(1) gap by (rule elapse_pending)
  have s1: "handler ?s1 = Some (clock ?s1 + delay, x)" "deps ?s1 = (x, delay)"
    "emitted ?s1 = emitted s" "debouncedValue ?s1 = debouncedValue s"
    using Cons.prems(2) neq by (simp_all add: e useDebounce_def)
  from Cons.IH [OF s1(1) s1(2) rest] s1(3,4) a show ?case
    by simp
qed

lemma take_burst:
  assumes "\<forall>(gap, x) \<in> set rest. gap < delay" and "distinct_adj (v # map snd rest)"
  shows "\<forall>(gap, x) \<in> set (take k rest). gap < delay"
    and "distinct_adj (v # map snd (take k rest))"
proof -
  show "\<forall>(gap, x) \<in> set (take k rest). gap < delay"
    using assms(1) by (auto dest: in_set_takeD)
  have "v # map snd (take k rest) = take (Suc k) (v # map snd rest)"
    by (simp add: take_map)
  then show "distinct_adj (v # map snd (take k rest))"
    using assms(2) by (metis append_take_drop_id distinct_adj_appendD1)
qed

text \<open>
  C9. Take the hook in any state and a burst of changes of its value: a first change to
  \<open>v\<close>, then the changes of \<open>rest\<close>, each to a value other than the one before it and
  each less than \<open>delay\<close> milliseconds after the change before it, so that every value
  but the last is superseded in less than the delay. Then at every moment of the burst
  (after the first \<open>k\<close> changes of \<open>rest\<close> and \<open>w < delay\<close> milliseconds more) no call of
  \<^verbatim>\<open>setDebouncedValue\<close> has been made and the debounced value, on which the search
  depends, is the one from before the burst. After the burst, \<open>w\<close> milliseconds without
  a change, the only call made is the one with the last value, and it is made once
  \<open>delay \<le> w\<close>.
\<close>

theorem debounce_burst:
  assumes "deps s \<noteq> (v, delay)"
      and "\<forall>(gap, x) \<in> set rest. gap < delay"
      and "distinct_adj (v # map snd rest)"
  shows "(w < delay \<longrightarrow>
            emitted (elapse w (typing delay (take k rest) (useDebounce v delay s))) =
              emitted s \<and>
            debouncedValue (elapse w (typing delay (take k rest) (useDebounce v delay s))) =
              debouncedValue s) \<and>
         emitted (elapse w (typing delay rest (useDebounce v delay s))) =
           emitted s @ (if delay \<le> w then [last (v # map snd rest)] else []) \<and>
         debouncedValue (elapse w (typing delay rest (useDebounce v delay s))) =
           (if delay \<le> w then last (v # map snd rest) else debouncedValue s)"
proof -
  let ?s0 = "useDebounce v delay s"
  note s0 = useDebounce_change [OF assms(1)]
  have full: "handler (typing delay rs ?s0) =
                Some (clock (typing delay rs ?s0) + delay, last (v # map snd rs)) \<and>
              deps (typing delay rs ?s0) = (last (v # map snd rs), delay) \<and>
              emitted (typing delay rs ?s0) = emitted s \<and>
              debouncedValue (typing delay rs ?s0) = debouncedValue s"
    if "\<forall>(gap, x) \<in> set rs. gap < delay" and "distinct_adj (v # map snd rs)" for rs
    using typing_pending [OF s0(1) s0(2) that] s0(3,4) by simp
  note pre = full [OF take_burst [OF assms(2,3), of k]]
  note all = full [OF assms(2,3)]
  have during: "emitted (elapse w (typing delay (take k rest) ?s0)) = emitted s \<and>
        debouncedValue (elapse w (typing delay (take k rest) ?s0)) = debouncedValue s"
    if "w < delay"
    using pre elapse_pending [of "typing delay (take k rest) ?s0" delay _ w] that by simp
  have after: "emitted (elapse w (typing delay rest ?s0)) =
      emitted s @ (if delay \<le> w then [last (v # map snd rest)] else []) \<and>
      debouncedValue (elapse w (typing delay rest ?s0)) =
        (if delay \<le> w then last (v # map snd rest) else debouncedValue s)"
  proof (cases "delay \<le> w")
    case True
    then show ?thesis
      using all elapse_due [of "typing delay rest ?s0" delay _ w] by simp
  next
    case False
    then show ?thesis
      using all elapse_pending [of "typing delay rest ?s0" delay _ w] by simp
  qed
  from during after show ?thesis by blast
qed

text \<open>
  The dashboard's delay of 300, the query empty at mount, then \<^verbatim>\<open>a\<close>,
  \<^verbatim>\<open>ab\<close> 100 milliseconds later and \<^verbatim>\<open>abc\<close> 120 milliseconds after that.
\<close>

theorem debounce_burst_witness:
  "deps (useDebounce_mount [] 300 0) \<noteq> (''a'', 300) \<and>
   (100::nat) < 300 \<and> (120::nat) < 300 \<and>
   distinct_adj [''a'', ''ab'', ''abc''] \<and>
   emitted (elapse 299 (typing 300 [(100, ''ab''), (120, ''abc'')]
      (useDebounce ''a'' 300 (useDebounce_mount [] 300 0)))) = [] \<and>
   debouncedValue (elapse 299 (typing 300 [(100, ''ab''), (120, ''abc'')]
      (useDebounce ''a'' 300 (useDebounce_mount [] 300 0)))) = [] \<and>
   emitted (elapse 300 (typing 300 [(100, ''ab''), (120, ''abc'')]
      (useDebounce ''a'' 300 (useDebounce_mount [] 300 0)))) = [''abc''] \<and>
   debouncedValue (elapse 300 (typing 300 [(100, ''ab''), (120, ''abc'')]
      (useDebounce ''a'' 300 (useDebounce_mount [] 300 0)))) = ''abc''"
  using debounce_burst [of "useDebounce_mount [] 300 0" "''a''" 300
      "[(100, ''ab''), (120, ''abc'')]" 299 2]
    debounce_burst [of "useDebounce_mount [] 300 0" "''a''" 300
      "[(100, ''ab''), (120, ''abc'')]" 300 2]
  by (simp add: useDebounce_mount_def)

end
